theory Spec2Isabelle
  imports Main
begin

section \<open>Strings and small helpers\<close>

text \<open>
  A Go string is a sequence of bytes, and so is a \<^typ>\<open>string\<close> here: \<open>length\<close> is
  Go's \<open>len\<close>, the number of bytes, and the conversion \<open>[]byte(s)\<close> is the identity.
\<close>

definition HasSuffix :: "string \<Rightarrow> string \<Rightarrow> bool" where
  "HasSuffix s suffix =
     (length suffix \<le> length s \<and> drop (length s - length suffix) s = suffix)"

text \<open>
  \<open>webTime\<close> receives the time already rendered by \<open>t.Format(time.RFC1123)\<close>, which is
  the standard library's work.
\<close>

definition webTime :: "string \<Rightarrow> string" where
  "webTime ftime =
     (if HasSuffix ftime ''UTC'' then take (length ftime - 3) ftime @ ''GMT'' else ftime)"

text \<open>\<open>strconv.Itoa\<close> on a length, which is never negative.\<close>

fun Itoa :: "nat \<Rightarrow> string" where
  "Itoa n =
     (if n < 10 then [''0123456789'' ! n]
      else Itoa (n div 10) @ [''0123456789'' ! (n mod 10)])"

declare Itoa.simps [simp del]

section \<open>Compiled regular expressions\<close>

text \<open>
  Package \<open>regexp\<close> is not part of the repository. A compiled expression is modelled
  by its search: on a string it finds nothing, or the span of the leftmost match together
  with the span of every capture group (\<open>None\<close> for a group that took no part).
  \<open>MatchString\<close> and \<open>FindStringSubmatch\<close> read that one search, as they do in Go, and the
  submatches are the slices of the searched string at the spans.
\<close>

type_synonym span = "nat \<times> nat"

type_synonym regexp = "string \<Rightarrow> (span \<times> span option list) option"

definition slice :: "string \<Rightarrow> span \<Rightarrow> string" where
  "slice s sp = take (snd sp - fst sp) (drop (fst sp) s)"

definition MatchString :: "regexp \<Rightarrow> string \<Rightarrow> bool" where
  "MatchString re s = (re s \<noteq> None)"

text \<open>The result is the empty list where Go returns \<open>nil\<close>.\<close>

definition FindStringSubmatch :: "regexp \<Rightarrow> string \<Rightarrow> string list" where
  "FindStringSubmatch re s =
     (case re s of
        None \<Rightarrow> []
      | Some (whole, groups) \<Rightarrow>
          slice s whole # map (\<lambda>g. case g of None \<Rightarrow> [] | Some sp \<Rightarrow> slice s sp) groups)"

section \<open>Types and values as package reflect shows them\<close>

datatype kind = KBool | KInt | KUint8 | KString | KSlice | KPtr | KStruct | KInterface | KFunc

text \<open>
  \<open>TDefined name t\<close> is the type declared by \<open>type name t\<close>; two types are identical
  exactly when they are equal here. \<open>TStruct\<close> and \<open>TInterface\<close> stand for a struct and
  an interface type literal, whose members play no part in dispatch.
\<close>

datatype gotype =
    TBool
  | TInt
  | TUint8
  | TString
  | TSlice gotype
  | TPtr gotype
  | TStruct
  | TInterface
  | TFunc "gotype list" "gotype list"
  | TDefined string gotype

fun underlying :: "gotype \<Rightarrow> gotype" where
  "underlying (TDefined name t) = underlying t"
| "underlying t = t"

fun Kind :: "gotype \<Rightarrow> kind" where
  "Kind TBool = KBool"
| "Kind TInt = KInt"
| "Kind TUint8 = KUint8"
| "Kind TString = KString"
| "Kind (TSlice t) = KSlice"
| "Kind (TPtr t) = KPtr"
| "Kind TStruct = KStruct"
| "Kind TInterface = KInterface"
| "Kind (TFunc ins outs) = KFunc"
| "Kind (TDefined name t) = Kind t"

text \<open>\<open>Elem\<close> is used only behind a test of the kind; elsewhere it has no element type.\<close>

fun Elem :: "gotype \<Rightarrow> gotype option" where
  "Elem (TSlice t) = Some t"
| "Elem (TPtr t) = Some t"
| "Elem (TDefined name t) = Elem t"
| "Elem t = None"

text \<open>The parameter types of a function type: \<open>NumIn\<close> is their number, \<open>In(i)\<close> the i-th.\<close>

fun params :: "gotype \<Rightarrow> gotype list option" where
  "params (TFunc ins outs) = Some ins"
| "params (TDefined name t) = params t"
| "params t = None"

text \<open>\<open>contextType = reflect.TypeOf(Context{})\<close>, the struct type declared as \<open>Context\<close>.\<close>

definition contextType :: gotype where
  "contextType = TDefined ''web.Context'' TStruct"

section \<open>Requests, the response writer and the log\<close>

text \<open>
  \<open>Form\<close> is the request's form after \<open>ParseForm\<close>: every key with its first value and
  the further ones.
\<close>

record request =
  Method :: string
  Path :: string
  Form :: "(string \<times> string \<times> string list) list"

record Context =
  Request :: request
  Params :: "(string \<times> string) list"

text \<open>
  The response writer belongs to the transport. It is modelled by the calls made on it, in
  order; \<open>ServeFile\<close> is \<open>http.ServeFile\<close> writing the file at a path.
\<close>

datatype wcall =
    HeaderSet string string
  | HeaderAdd string string
  | WriteHeader int
  | Write string
  | ServeFile string

text \<open>
  What a panic carries. The value is the one \<open>recover()\<close> yields in the deferred function
  of \<open>safelyCall\<close>, and it is not nil.
\<close>

datatype panicv = ReflectPanic string | RuntimePanic string | HandlerPanic string

datatype logentry =
    LogRequest string string "(string \<times> string) list option"
  | LogRouteRegexError string
  | LogHandlerCrashed panicv
  | LogFrame string nat
  | LogWriteError string

record st =
  resp :: "wcall list"
  logger :: "logentry list"

datatype 'a result = Return 'a st | Panic panicv st

definition Println :: "logentry \<Rightarrow> st \<Rightarrow> st" where
  "Println e s = s\<lparr>logger := logger s @ [e]\<rparr>"

definition wcalls :: "wcall list \<Rightarrow> st \<Rightarrow> st" where
  "wcalls cs s = s\<lparr>resp := resp s @ cs\<rparr>"

definition SetHeader :: "string \<Rightarrow> string \<Rightarrow> bool \<Rightarrow> st \<Rightarrow> st" where
  "SetHeader hdr v unique s =
     (if unique then wcalls [HeaderSet hdr v] s else wcalls [HeaderAdd hdr v] s)"

definition Abort :: "int \<Rightarrow> string \<Rightarrow> st \<Rightarrow> st" where
  "Abort status body s = wcalls [Write body] (wcalls [WriteHeader status] s)"

section \<open>Values and handlers\<close>

text \<open>
  A value carries its type and, where dispatch reads it, its contents. A value returned by
  \<open>Call\<close> has the result type the handler declares.
\<close>

datatype payload = PString string | PBytes string | PContext Context | POpaque

datatype val = Val gotype payload

fun TypeOf :: "val \<Rightarrow> gotype" where
  "TypeOf (Val t p) = t"

text \<open>\<open>sval.String()\<close>, read behind the test that the kind is String.\<close>

fun String_of :: "val \<Rightarrow> string" where
  "String_of (Val t (PString s)) = s"
| "String_of (Val t p) = []"

text \<open>
  \<open>sval.Interface().([]byte)\<close>: the type assertion holds when the type of the value is
  identical to \<open>[]byte\<close>, and panics otherwise.
\<close>

fun assertBytes :: "val \<Rightarrow> panicv + string" where
  "assertBytes (Val t p) =
     (if t = TSlice TUint8 then (case p of PBytes b \<Rightarrow> Inr b | _ \<Rightarrow> Inr [])
      else Inl (RuntimePanic ''interface conversion: interface {} is not []uint8''))"

definition ValueOf_ctx :: "Context \<Rightarrow> val" where
  "ValueOf_ctx ctx = Val (TPtr contextType) (PContext ctx)"

definition ValueOf_string :: "string \<Rightarrow> val" where
  "ValueOf_string arg = Val TString (PString arg)"

text \<open>
  The \<open>reflect.Value\<close> of a handler. \<open>Invalid\<close> is the zero Value, which
  \<open>reflect.ValueOf(nil)\<close> gives. Otherwise the value has a type and, for a function, what
  calling it does to the response and the log: it returns values, or it panics, in the body
  or before it when \<open>Call\<close> finds the arguments not to fit the declared parameters.
\<close>

datatype rvalue =
    Invalid
  | Valid gotype "val list \<Rightarrow> st \<Rightarrow> (panicv + val list) \<times> st"

fun Type_of :: "rvalue \<Rightarrow> panicv + gotype" where
  "Type_of Invalid = Inl (ReflectPanic ''reflect: call of reflect.Value.Type on zero Value'')"
| "Type_of (Valid t f) = Inr t"

fun Call :: "rvalue \<Rightarrow> val list \<Rightarrow> st \<Rightarrow> (panicv + val list) \<times> st" where
  "Call Invalid args s =
     (Inl (ReflectPanic ''reflect: call of reflect.Value.Call on zero Value''), s)"
| "Call (Valid t f) args s =
     (if Kind t \<noteq> KFunc then (Inl (ReflectPanic ''reflect: call of non-function''), s)
      else f args s)"

section \<open>The server\<close>

record ServerConfig =
  StaticDir :: string
  Addr :: string
  Port :: int
  CookieSecret :: string
  RecoverPanic :: bool
  Profiler :: bool

record route =
  route_r :: string
  route_cr :: regexp
  route_method :: string
  route_handler :: rvalue

text \<open>
  A server as \<open>NewServer\<close> and \<open>initServer\<close> leave it: its configuration and its logger are
  set. \<open>Logger\<close> holds what has been logged.
\<close>

record Server =
  Config :: ServerConfig
  routes :: "route list"
  Logger :: "logentry list"

text \<open>What the standard library, the file system and the transport decide.\<close>

record env =
  Compile :: "string \<Rightarrow> regexp option"
  fileExists :: "string \<Rightarrow> bool"
  Join :: "string \<Rightarrow> string \<Rightarrow> string"
  defaultStaticDirs :: "string list"
  timeRFC1123 :: string
  Callers :: "(string \<times> nat) list"
  WriteError :: "string \<Rightarrow> string option"

subsection \<open>addRoute\<close>

text \<open>
  The handler arrives as an \<open>interface{}\<close>: it holds a \<open>reflect.Value\<close> already, or
  anything else, of which \<open>reflect.ValueOf\<close> is taken.
\<close>

datatype handlerArg = IsValue rvalue | Other rvalue

definition addRoute :: "env \<Rightarrow> string \<Rightarrow> string \<Rightarrow> handlerArg \<Rightarrow> Server \<Rightarrow> Server" where
  "addRoute e r method handler s =
     (case Compile e r of
        None \<Rightarrow> s\<lparr>Logger := Logger s @ [LogRouteRegexError r]\<rparr>
      | Some cr \<Rightarrow>
          (case handler of
             IsValue fv \<Rightarrow>
               s\<lparr>routes := routes s @
                  [\<lparr>route_r = r, route_cr = cr, route_method = method, route_handler = fv\<rparr>]\<rparr>
           | Other fv \<Rightarrow>
               s\<lparr>routes := routes s @
                  [\<lparr>route_r = r, route_cr = cr, route_method = method, route_handler = fv\<rparr>]\<rparr>))"

definition Get :: "env \<Rightarrow> string \<Rightarrow> handlerArg \<Rightarrow> Server \<Rightarrow> Server" where
  "Get e r handler s = addRoute e r ''GET'' handler s"

definition Post :: "env \<Rightarrow> string \<Rightarrow> handlerArg \<Rightarrow> Server \<Rightarrow> Server" where
  "Post e r handler s = addRoute e r ''POST'' handler s"

definition Match :: "env \<Rightarrow> string \<Rightarrow> string \<Rightarrow> handlerArg \<Rightarrow> Server \<Rightarrow> Server" where
  "Match e method r handler s = addRoute e r method handler s"

subsection \<open>safelyCall\<close>

fun logFrames :: "(string \<times> nat) list \<Rightarrow> st \<Rightarrow> st" where
  "logFrames [] s = s"
| "logFrames ((file, line) # frames) s = logFrames frames (Println (LogFrame file line) s)"

text \<open>The first component of a result is \<open>resp\<close>, the second \<open>e\<close> (\<open>None\<close> for nil).\<close>

definition safelyCall ::
  "env \<Rightarrow> Server \<Rightarrow> rvalue \<Rightarrow> val list \<Rightarrow> st \<Rightarrow> (val list \<times> panicv option) result" where
  "safelyCall e s function args w =
     (case Call function args w of
        (Inr ret, w') \<Rightarrow> Return (ret, None) w'
      | (Inl err, w') \<Rightarrow>
          if \<not> RecoverPanic (Config s) then Panic err w'
          else Return ([], Some err)
                 (logFrames (Callers e) (Println (LogHandlerCrashed err) w')))"

subsection \<open>requiresContext\<close>

definition requiresContext :: "gotype \<Rightarrow> panicv + bool" where
  "requiresContext handlerType =
     (case params handlerType of
        None \<Rightarrow> Inl (ReflectPanic ''reflect: NumIn of non-func type'')
      | Some ins \<Rightarrow>
          if length ins = 0 then Inr False
          else
            let a0 = ins ! 0 in
            if Kind a0 \<noteq> KPtr then Inr False
            else if Elem a0 = Some contextType then Inr True
            else Inr False)"

subsection \<open>tryServingFile\<close>

fun serveFirst :: "env \<Rightarrow> string list \<Rightarrow> string \<Rightarrow> st \<Rightarrow> bool \<times> st" where
  "serveFirst e [] name w = (False, w)"
| "serveFirst e (staticDir # dirs) name w =
     (let staticFile = Join e staticDir name in
      if fileExists e staticFile then (True, wcalls [ServeFile staticFile] w)
      else serveFirst e dirs name w)"

definition tryServingFile :: "env \<Rightarrow> Server \<Rightarrow> string \<Rightarrow> st \<Rightarrow> bool \<times> st" where
  "tryServingFile e s name w =
     (if StaticDir (Config s) \<noteq> [] then
        (let staticFile = Join e (StaticDir (Config s)) name in
         if fileExists e staticFile then (True, wcalls [ServeFile staticFile] w)
         else (False, w))
      else serveFirst e (defaultStaticDirs e) name w)"

subsection \<open>routeHandler\<close>

text \<open>The test of the methods that skips a route.\<close>

definition methodMismatch :: "string \<Rightarrow> string \<Rightarrow> bool" where
  "methodMismatch reqMethod routeMethod =
     (reqMethod \<noteq> routeMethod \<and> \<not> (reqMethod = ''HEAD'' \<and> routeMethod = ''GET''))"

text \<open>The arguments of the call: the context if the handler takes it, then the captures.\<close>

definition handlerArgs :: "rvalue \<Rightarrow> Context \<Rightarrow> string list \<Rightarrow> panicv + val list" where
  "handlerArgs h ctx captures =
     (case Type_of h of
        Inl p \<Rightarrow> Inl p
      | Inr handlerType \<Rightarrow>
          (case requiresContext handlerType of
             Inl p \<Rightarrow> Inl p
           | Inr rc \<Rightarrow>
               Inr ((if rc then [ValueOf_ctx ctx] else []) @ map ValueOf_string captures)))"

text \<open>The bytes to send for the first returned value.\<close>

definition content_of :: "val \<Rightarrow> panicv + string" where
  "content_of sval =
     (if Kind (TypeOf sval) = KString then Inr (String_of sval)
      else if Kind (TypeOf sval) = KSlice \<and> map_option Kind (Elem (TypeOf sval)) = Some KUint8
      then assertBytes sval
      else Inr [])"

text \<open>What follows the call: the abort on a fault, and the returned value written out.\<close>

definition writeResult :: "env \<Rightarrow> val list \<Rightarrow> panicv option \<Rightarrow> st \<Rightarrow> unit result" where
  "writeResult e ret err w =
     (let w1 = (if err \<noteq> None then Abort 500 ''Server Error'' w else w) in
      if length ret = 0 then Return () w1
      else
        (case content_of (ret ! 0) of
           Inl p \<Rightarrow> Panic p w1
         | Inr content \<Rightarrow>
             let w2 = SetHeader ''Content-Length'' (Itoa (length content)) True w1;
                 w3 = wcalls [Write content] w2
             in (case WriteError e content of
                   None \<Rightarrow> Return () w3
                 | Some msg \<Rightarrow> Return () (Println (LogWriteError msg) w3))))"

definition callHandler ::
  "env \<Rightarrow> Server \<Rightarrow> Context \<Rightarrow> route \<Rightarrow> string list \<Rightarrow> st \<Rightarrow> unit result" where
  "callHandler e s ctx rt captures w =
     (case handlerArgs (route_handler rt) ctx captures of
        Inl p \<Rightarrow> Panic p w
      | Inr args \<Rightarrow>
          (case safelyCall e s (route_handler rt) args w of
             Panic p w' \<Rightarrow> Panic p w'
           | Return (ret, err) w' \<Rightarrow> writeResult e ret err w'))"

text \<open>What follows the loop when no route was taken.\<close>

definition notFound :: "env \<Rightarrow> Server \<Rightarrow> request \<Rightarrow> st \<Rightarrow> unit result" where
  "notFound e s req w =
     (if Method req = ''GET'' \<or> Method req = ''HEAD'' then
        (case tryServingFile e s (Join e (Path req) ''index.html'') w of
           (True, w') \<Rightarrow> Return () w'
         | (False, w') \<Rightarrow>
             (case tryServingFile e s (Join e (Path req) ''index.htm'') w' of
                (True, w'') \<Rightarrow> Return () w''
              | (False, w'') \<Rightarrow> Return () (Abort 404 ''Page not found'' w'')))
      else Return () (Abort 404 ''Page not found'' w))"

text \<open>The loop over the routes, from the route it has reached.\<close>

fun routeLoop ::
  "env \<Rightarrow> Server \<Rightarrow> request \<Rightarrow> Context \<Rightarrow> route list \<Rightarrow> st \<Rightarrow> unit result" where
  "routeLoop e s req ctx [] w = notFound e s req w"
| "routeLoop e s req ctx (rt # rest) w =
     (if methodMismatch (Method req) (route_method rt) then routeLoop e s req ctx rest w
      else if \<not> MatchString (route_cr rt) (Path req) then routeLoop e s req ctx rest w
      else
        (case FindStringSubmatch (route_cr rt) (Path req) of
           [] \<Rightarrow> Panic (RuntimePanic ''index out of range'') w
         | m0 # captures \<Rightarrow>
             if length m0 \<noteq> length (Path req) then routeLoop e s req ctx rest w
             else callHandler e s ctx rt captures w))"

definition routeHandler :: "env \<Rightarrow> Server \<Rightarrow> request \<Rightarrow> wcall list \<Rightarrow> unit result" where
  "routeHandler e s req w =
     (let requestPath = Path req;
          ctx = \<lparr>Request = req, Params = map (\<lambda>(k, v, vs). (k, v)) (Form req)\<rparr>;
          w0 = \<lparr>resp = w, logger = Logger s\<rparr>;
          w1 = Println (LogRequest (Method req) requestPath
                 (if length (Form req) > 0 then Some (Params ctx) else None)) w0;
          w2 = SetHeader ''Server'' ''web.go'' True w1;
          w3 = SetHeader ''Date'' (webTime (timeRFC1123 e)) True w2;
          served = (if Method req = ''GET'' \<or> Method req = ''HEAD''
                    then tryServingFile e s requestPath w3 else (False, w3))
      in if fst served then Return () (snd served)
         else
           routeLoop e s req ctx (routes s)
             (SetHeader ''Content-Type'' ''text/html; charset=utf-8'' True (snd served)))"

section \<open>The two conditions of the matcher, in the words of the specification\<close>

text \<open>
  The method condition: the request's method is the route's, or a HEAD request meets a
  GET route.
\<close>

definition methodCondition :: "string \<Rightarrow> string \<Rightarrow> bool" where
  "methodCondition reqMethod routeMethod =
     (reqMethod = routeMethod \<or> (reqMethod = ''HEAD'' \<and> routeMethod = ''GET''))"

text \<open>
  The full-path condition: the pattern's leftmost match is the whole path. The result
  holds the capture groups then.
\<close>

definition fullPathMatch :: "regexp \<Rightarrow> string \<Rightarrow> string list option" where
  "fullPathMatch re p =
     (case FindStringSubmatch re p of
        [] \<Rightarrow> None
      | m0 # captures \<Rightarrow> if m0 = p then Some captures else None)"

definition satisfies :: "request \<Rightarrow> route \<Rightarrow> string list option" where
  "satisfies req rt =
     (if methodCondition (Method req) (route_method rt)
      then fullPathMatch (route_cr rt) (Path req) else None)"

text \<open>The position and the captures of the first route of a table that meets both.\<close>

fun firstSatisfying :: "request \<Rightarrow> route list \<Rightarrow> (nat \<times> string list) option" where
  "firstSatisfying req [] = None"
| "firstSatisfying req (rt # rest) =
     (case satisfies req rt of
        Some captures \<Rightarrow> Some (0, captures)
      | None \<Rightarrow>
          (case firstSatisfying req rest of
             None \<Rightarrow> None
           | Some (i, captures) \<Rightarrow> Some (Suc i, captures)))"

section \<open>Example inputs\<close>

text \<open>
  Compiled expressions for patterns of two shapes, searched as Go does, leftmost first:
  a pattern without metacharacters, and such a literal followed by one group \<open>(.*)\<close> or
  \<open>(.+)\<close>, which runs to the end of the line.
\<close>

fun leftmost ::
  "(string \<Rightarrow> (nat \<times> span option list) option) \<Rightarrow> nat \<Rightarrow> string
     \<Rightarrow> (span \<times> span option list) option" where
  "leftmost m i s =
     (case m s of
        Some (n, groups) \<Rightarrow>
          Some ((i, i + n), map (map_option (\<lambda>(b, e). (i + b, i + e))) groups)
      | None \<Rightarrow> (case s of [] \<Rightarrow> None | c # cs \<Rightarrow> leftmost m (Suc i) cs))"

definition literalAt :: "string \<Rightarrow> string \<Rightarrow> (nat \<times> span option list) option" where
  "literalAt lit s = (if take (length lit) s = lit then Some (length lit, []) else None)"

definition literalThenGroupAt ::
  "string \<Rightarrow> nat \<Rightarrow> string \<Rightarrow> (nat \<times> span option list) option" where
  "literalThenGroupAt lit least s =
     (if take (length lit) s = lit then
        (let n = length (takeWhile (\<lambda>c. c \<noteq> CHR 0x0A) (drop (length lit) s)) in
         if least \<le> n then Some (length lit + n, [Some (length lit, length lit + n)])
         else None)
      else None)"

definition compiledLiteral :: "string \<Rightarrow> regexp" where
  "compiledLiteral lit = leftmost (literalAt lit) 0"

definition compiledLiteralGroup :: "string \<Rightarrow> nat \<Rightarrow> regexp" where
  "compiledLiteralGroup lit least = leftmost (literalThenGroupAt lit least) 0"

text \<open>The patterns \<open>/hello/(.+)\<close>, \<open>/(.*)\<close>, \<open>/specific\<close> and \<open>/a\<close>, compiled.\<close>

definition reHello :: regexp where
  "reHello = compiledLiteralGroup ''/hello/'' 1"

definition reAny :: regexp where
  "reAny = compiledLiteralGroup ''/'' 0"

definition reSpecific :: regexp where
  "reSpecific = compiledLiteral ''/specific''"

definition reA :: regexp where
  "reA = compiledLiteral ''/a''"

text \<open>\<open>regexp.Compile\<close> on the patterns of the examples; \<open>/(\<close> does not compile.\<close>

definition exCompile :: "string \<Rightarrow> regexp option" where
  "exCompile r =
     (if r = ''/hello/(.+)'' then Some reHello
      else if r = ''/(.*)'' then Some reAny
      else if r = ''/specific'' then Some reSpecific
      else if r = ''/a'' then Some reA
      else None)"

text \<open>\<open>path.Join\<close> on two clean paths.\<close>

definition exJoin :: "string \<Rightarrow> string \<Rightarrow> string" where
  "exJoin d n =
     rev (dropWhile (\<lambda>c. c = CHR ''/'') (rev d)) @ ''/'' @ dropWhile (\<lambda>c. c = CHR ''/'') n"

definition exEnv :: env where
  "exEnv =
     \<lparr>Compile = exCompile,
      fileExists = (\<lambda>f. False),
      Join = exJoin,
      defaultStaticDirs = [''/srv/app/static'', ''/srv/static''],
      timeRFC1123 = ''Mon, 02 Jan 2006 15:04:05 UTC'',
      Callers = [(''server.go'', 306)],
      WriteError = (\<lambda>b. None)\<rparr>"

definition exConfig :: ServerConfig where
  "exConfig =
     \<lparr>StaticDir = [], Addr = [], Port = 0, CookieSecret = [],
      RecoverPanic = True, Profiler = False\<rparr>"

definition emptyServer :: Server where
  "emptyServer = \<lparr>Config = exConfig, routes = [], Logger = []\<rparr>"

text \<open>\<open>func(val string) string { return "hello " + val }\<close>\<close>

definition helloHandler :: rvalue where
  "helloHandler =
     Valid (TFunc [TString] [TString])
       (\<lambda>args w.
          case args of
            [Val TString (PString v)] \<Rightarrow> (Inr [Val TString (PString (''hello '' @ v))], w)
          | _ \<Rightarrow> (Inl (ReflectPanic ''reflect: Call with wrong arguments''), w))"

text \<open>\<open>func(ctx *Context, val string) { ctx.WriteString(val) }\<close>\<close>

definition ctxHandler :: rvalue where
  "ctxHandler =
     Valid (TFunc [TPtr contextType, TString] [])
       (\<lambda>args w.
          case args of
            [Val (TPtr c) (PContext ctx), Val TString (PString v)] \<Rightarrow>
              (Inr [], wcalls [Write v] w)
          | _ \<Rightarrow> (Inl (ReflectPanic ''reflect: Call with wrong arguments''), w))"

text \<open>\<open>func() string { panic("boom") }\<close>\<close>

definition panicHandler :: rvalue where
  "panicHandler =
     Valid (TFunc [] [TString])
       (\<lambda>args w.
          case args of
            [] \<Rightarrow> (Inl (HandlerPanic ''boom''), w)
          | _ \<Rightarrow> (Inl (ReflectPanic ''reflect: Call with too many input arguments''), w))"

text \<open>\<open>func() json.RawMessage { return json.RawMessage("{}") }\<close>\<close>

definition rawMessage :: gotype where
  "rawMessage = TDefined ''json.RawMessage'' (TSlice TUint8)"

definition rawHandler :: rvalue where
  "rawHandler =
     Valid (TFunc [] [rawMessage])
       (\<lambda>args w.
          case args of
            [] \<Rightarrow> (Inr [Val rawMessage (PBytes ''{}'')], w)
          | _ \<Rightarrow> (Inl (ReflectPanic ''reflect: Call with too many input arguments''), w))"

text \<open>\<open>func() (string, int) { return "ok", 7 }\<close>\<close>

definition pairHandler :: rvalue where
  "pairHandler =
     Valid (TFunc [] [TString, TInt])
       (\<lambda>args w.
          case args of
            [] \<Rightarrow> (Inr [Val TString (PString ''ok''), Val TInt POpaque], w)
          | _ \<Rightarrow> (Inl (ReflectPanic ''reflect: Call with too many input arguments''), w))"

text \<open>The same server with the recover policy switched off.\<close>

definition debugServer :: Server where
  "debugServer = \<lparr>Config = exConfig\<lparr>RecoverPanic := False\<rparr>, routes = [], Logger = []\<rparr>"

text \<open>\<open>func() int { return 7 }\<close>\<close>

definition intHandler :: rvalue where
  "intHandler =
     Valid (TFunc [] [TInt])
       (\<lambda>args w.
          case args of
            [] \<Rightarrow> (Inr [Val TInt POpaque], w)
          | _ \<Rightarrow> (Inl (ReflectPanic ''reflect: Call with too many input arguments''), w))"

definition exRoute :: "string \<Rightarrow> regexp \<Rightarrow> string \<Rightarrow> rvalue \<Rightarrow> route" where
  "exRoute r cr m h = \<lparr>route_r = r, route_cr = cr, route_method = m, route_handler = h\<rparr>"

text \<open>
  Two tables for the request \<open>GET /specific\<close>: the broad pattern first and a specific one
  after it, and the same with a second specific route at the end.
\<close>

definition twoRoutes :: "route list" where
  "twoRoutes =
     [exRoute ''/(.*)'' reAny ''GET'' ctxHandler,
      exRoute ''/specific'' reSpecific ''GET'' helloHandler]"

definition threeRoutes :: "route list" where
  "threeRoutes =
     [exRoute ''/(.*)'' reAny ''GET'' ctxHandler,
      exRoute ''/specific'' reSpecific ''GET'' panicHandler,
      exRoute ''/specific'' reSpecific ''GET'' helloHandler]"

definition exRequest :: "string \<Rightarrow> string \<Rightarrow> request" where
  "exRequest m p = \<lparr>Method = m, Path = p, Form = []\<rparr>"

definition exContext :: "request \<Rightarrow> Context" where
  "exContext req = \<lparr>Request = req, Params = []\<rparr>"

definition emptySt :: st where
  "emptySt = \<lparr>resp = [], logger = []\<rparr>"

section \<open>The scan of the route table\<close>

lemma slice_whole: "length (slice p sp) = length p \<Longrightarrow> slice p sp = p"
proof -
  assume a: "length (slice p sp) = length p"
  obtain b e where sp: "sp = (b, e)" by (cases sp)
  from a sp have l: "min (e - b) (length p - b) = length p"
    by (simp add: slice_def min_def split: if_splits)
  then have "b = 0 \<or> length p = 0" by arith
  then have d: "drop b p = p" by auto
  from l have "length p \<le> e - b" by arith
  with d show ?thesis by (simp add: slice_def sp)
qed

lemma methodMismatch_iff: "methodMismatch a b = (\<not> methodCondition a b)"
  by (auto simp: methodMismatch_def methodCondition_def)

lemma FindStringSubmatch_Nil: "(FindStringSubmatch re p = []) = (\<not> MatchString re p)"
  by (auto simp: FindStringSubmatch_def MatchString_def split: option.splits)

lemma FindStringSubmatch_hd:
  "FindStringSubmatch re p = m0 # captures \<Longrightarrow> (length m0 = length p) = (m0 = p)"
  by (auto simp: FindStringSubmatch_def split: option.splits dest: slice_whole)

lemma routeLoop_step:
  "routeLoop e s req ctx (rt # rest) w =
     (case satisfies req rt of
        Some captures \<Rightarrow> callHandler e s ctx rt captures w
      | None \<Rightarrow> routeLoop e s req ctx rest w)"
proof (cases "FindStringSubmatch (route_cr rt) (Path req)")
  case Nil
  moreover from Nil have "\<not> MatchString (route_cr rt) (Path req)"
    by (simp add: FindStringSubmatch_Nil)
  ultimately show ?thesis
    by (simp add: satisfies_def fullPathMatch_def methodMismatch_iff)
next
  case (Cons m0 captures)
  then have "MatchString (route_cr rt) (Path req)"
    using FindStringSubmatch_Nil [of "route_cr rt" "Path req"] by simp
  with Cons FindStringSubmatch_hd [OF Cons] show ?thesis
    by (simp add: satisfies_def fullPathMatch_def methodMismatch_iff)
qed

lemma routeLoop_first:
  "routeLoop e s req ctx rs w =
     (case firstSatisfying req rs of
        None \<Rightarrow> notFound e s req w
      | Some (i, captures) \<Rightarrow> callHandler e s ctx (rs ! i) captures w)"
proof (induction rs)
  case Nil
  show ?case by simp
next
  case (Cons rt rest)
  show ?case
    unfolding routeLoop_step
    by (simp add: Cons.IH split: option.splits)
qed

lemma firstSatisfying_Some:
  "firstSatisfying req rs = Some (i, captures) \<Longrightarrow>
     i < length rs \<and> satisfies req (rs ! i) = Some captures \<and>
     (\<forall>j<i. satisfies req (rs ! j) = None)"
proof (induction rs arbitrary: i)
  case Nil
  then show ?case by simp
next
  case (Cons rt rest)
  show ?case
  proof (cases "satisfies req rt")
    case (Some c)
    with Cons.prems show ?thesis by simp
  next
    case None
    with Cons.prems obtain k where k: "firstSatisfying req rest = Some (k, captures)" "i = Suc k"
      by (auto split: option.splits)
    from Cons.IH [OF k(1)] None k(2) show ?thesis
      by (auto simp: less_Suc_eq_0_disj)
  qed
qed

lemma firstSatisfying_None:
  "(firstSatisfying req rs = None) = (\<forall>rt\<in>set rs. satisfies req rt = None)"
  by (induction rs) (auto split: option.splits)

lemma firstSatisfying_le:
  "i < length rs \<Longrightarrow> satisfies req (rs ! i) = Some c \<Longrightarrow>
     \<exists>k captures. k \<le> i \<and> firstSatisfying req rs = Some (k, captures)"
proof -
  assume a: "i < length rs" "satisfies req (rs ! i) = Some c"
  then have "firstSatisfying req rs \<noteq> None"
    using firstSatisfying_None [of req rs] by (metis nth_mem option.distinct(1))
  then obtain k captures where k: "firstSatisfying req rs = Some (k, captures)" by auto
  from firstSatisfying_Some [OF k] a have "\<not> i < k" by auto
  with k show ?thesis by auto
qed

section \<open>Facts about the example inputs\<close>

lemma ex_find_any_specific:
  "FindStringSubmatch reAny ''/specific'' = [''/specific'', ''specific'']"
  by (simp add: reAny_def FindStringSubmatch_def compiledLiteralGroup_def
      literalThenGroupAt_def slice_def)

lemma ex_find_specific: "FindStringSubmatch reSpecific ''/specific'' = [''/specific'']"
  by (simp add: reSpecific_def FindStringSubmatch_def compiledLiteral_def literalAt_def
      slice_def)

lemma ex_find_a_ab: "FindStringSubmatch reA ''/ab'' = [''/a'']"
  by (simp add: reA_def FindStringSubmatch_def compiledLiteral_def literalAt_def slice_def)

lemma ex_find_a_ba: "FindStringSubmatch reA ''/b/a'' = [''/a'']"
  by (simp add: reA_def FindStringSubmatch_def compiledLiteral_def literalAt_def slice_def)

lemma ex_find_a_a: "FindStringSubmatch reA ''/a'' = [''/a'']"
  by (simp add: reA_def FindStringSubmatch_def compiledLiteral_def literalAt_def slice_def)

lemma ex_find_a_missing: "FindStringSubmatch reA ''/missing'' = []"
  by (simp add: reA_def FindStringSubmatch_def compiledLiteral_def literalAt_def slice_def)

lemma ex_find_hello:
  "FindStringSubmatch reHello ''/hello/world'' = [''/hello/world'', ''world'']"
  by (simp add: reHello_def FindStringSubmatch_def compiledLiteralGroup_def
      literalThenGroupAt_def slice_def)

lemma ex_notFound:
  "notFound exEnv emptyServer (exRequest m p) w = Return () (Abort 404 ''Page not found'' w)"
  by (simp add: exRequest_def notFound_def tryServingFile_def exEnv_def emptyServer_def
      exConfig_def)

section \<open>The method condition\<close>

text \<open>
  Claim C3. A route passes the test of the methods exactly when the request's method
  equals the route's, or the request is HEAD and the route is registered for GET. So a HEAD
  request meets a GET route, and a GET request never meets a route registered for HEAD. A
  route that fails the test is skipped; one that passes goes on to the test of the path.
\<close>

theorem method_condition:
  "(\<not> methodMismatch reqMethod routeMethod) =
     (reqMethod = routeMethod \<or> (reqMethod = ''HEAD'' \<and> routeMethod = ''GET''))
   \<and> \<not> methodMismatch ''HEAD'' ''GET''
   \<and> methodMismatch ''GET'' ''HEAD''
   \<and> (methodMismatch (Method req) (route_method rt) \<longrightarrow>
        routeLoop e s req ctx (rt # rest) w = routeLoop e s req ctx rest w)
   \<and> (\<not> methodMismatch (Method req) (route_method rt) \<longrightarrow>
        routeLoop e s req ctx (rt # rest) w =
          (case fullPathMatch (route_cr rt) (Path req) of
             Some captures \<Rightarrow> callHandler e s ctx rt captures w
           | None \<Rightarrow> routeLoop e s req ctx rest w))"
proof -
  have "(\<not> methodMismatch reqMethod routeMethod) =
     (reqMethod = routeMethod \<or> (reqMethod = ''HEAD'' \<and> routeMethod = ''GET''))"
    by (auto simp: methodMismatch_def)
  moreover have "\<not> methodMismatch ''HEAD'' ''GET''" by (simp add: methodMismatch_def)
  moreover have "methodMismatch ''GET'' ''HEAD''" by (simp add: methodMismatch_def)
  moreover have "methodMismatch (Method req) (route_method rt) \<longrightarrow>
        routeLoop e s req ctx (rt # rest) w = routeLoop e s req ctx rest w"
    by simp
  moreover have "\<not> methodMismatch (Method req) (route_method rt) \<longrightarrow>
        routeLoop e s req ctx (rt # rest) w =
          (case fullPathMatch (route_cr rt) (Path req) of
             Some captures \<Rightarrow> callHandler e s ctx rt captures w
           | None \<Rightarrow> routeLoop e s req ctx rest w)"
    unfolding routeLoop_step by (simp add: satisfies_def methodMismatch_iff)
  ultimately show ?thesis by blast
qed

theorem method_condition_witness:
  "methodMismatch ''GET'' ''HEAD''
   \<and> routeLoop exEnv emptyServer (exRequest ''GET'' ''/a'') (exContext (exRequest ''GET'' ''/a''))
       [exRoute ''/a'' reA ''HEAD'' helloHandler] emptySt
     = Return () \<lparr>resp = [WriteHeader 404, Write ''Page not found''], logger = []\<rparr>
   \<and> \<not> methodMismatch ''HEAD'' ''GET''
   \<and> routeLoop exEnv emptyServer (exRequest ''HEAD'' ''/a'') (exContext (exRequest ''HEAD'' ''/a''))
       [exRoute ''/a'' reA ''GET'' panicHandler] emptySt
     = callHandler exEnv emptyServer (exContext (exRequest ''HEAD'' ''/a''))
         (exRoute ''/a'' reA ''GET'' panicHandler) [] emptySt"
  using
    method_condition [of "''GET''" "''HEAD''" "exRequest ''GET'' ''/a''"
      "exRoute ''/a'' reA ''HEAD'' helloHandler" exEnv emptyServer
      "exContext (exRequest ''GET'' ''/a'')" "[]" emptySt]
    method_condition [of "''HEAD''" "''GET''" "exRequest ''HEAD'' ''/a''"
      "exRoute ''/a'' reA ''GET'' panicHandler" exEnv emptyServer
      "exContext (exRequest ''HEAD'' ''/a'')" "[]" emptySt]
  by (simp add: exRequest_def exRoute_def fullPathMatch_def ex_find_a_a notFound_def
      tryServingFile_def exEnv_def emptyServer_def exConfig_def Abort_def wcalls_def emptySt_def)

section \<open>The full-path condition\<close>

text \<open>
  Claim C1. For a route whose method passes: the first submatch is a slice of the request
  path, found by the leftmost search. When its length differs from the length of the path
  (the match is only a prefix, a suffix or an inner part of the path), the route is skipped
  and the scan goes on with the next route; the route's handler is called only when the
  lengths are equal, and then the first submatch is the whole path. A pattern that matches
  nowhere is skipped as well.
\<close>

theorem full_path_match:
  assumes "\<not> methodMismatch (Method req) (route_method rt)"
  shows
    "(FindStringSubmatch (route_cr rt) (Path req) = [] \<longrightarrow>
        routeLoop e s req ctx (rt # rest) w = routeLoop e s req ctx rest w)
     \<and> (\<forall>m0 captures. FindStringSubmatch (route_cr rt) (Path req) = m0 # captures \<longrightarrow>
          (\<exists>sp. m0 = slice (Path req) sp)
          \<and> (length m0 \<noteq> length (Path req) \<longrightarrow>
               m0 \<noteq> Path req
               \<and> routeLoop e s req ctx (rt # rest) w = routeLoop e s req ctx rest w)
          \<and> (length m0 = length (Path req) \<longrightarrow>
               m0 = Path req
               \<and> routeLoop e s req ctx (rt # rest) w = callHandler e s ctx rt captures w))"
proof -
  have none: "FindStringSubmatch (route_cr rt) (Path req) = [] \<longrightarrow>
        routeLoop e s req ctx (rt # rest) w = routeLoop e s req ctx rest w"
    by (simp add: FindStringSubmatch_Nil)
  have some: "(\<exists>sp. m0 = slice (Path req) sp)
          \<and> (length m0 \<noteq> length (Path req) \<longrightarrow>
               m0 \<noteq> Path req
               \<and> routeLoop e s req ctx (rt # rest) w = routeLoop e s req ctx rest w)
          \<and> (length m0 = length (Path req) \<longrightarrow>
               m0 = Path req
               \<and> routeLoop e s req ctx (rt # rest) w = callHandler e s ctx rt captures w)"
    if f: "FindStringSubmatch (route_cr rt) (Path req) = m0 # captures" for m0 captures
  proof -
    from f have m: "MatchString (route_cr rt) (Path req)"
      using FindStringSubmatch_Nil [of "route_cr rt" "Path req"] by simp
    from f have sl: "\<exists>sp. m0 = slice (Path req) sp"
      by (auto simp: FindStringSubmatch_def split: option.splits)
    from f m assms have skip: "length m0 \<noteq> length (Path req) \<Longrightarrow>
        routeLoop e s req ctx (rt # rest) w = routeLoop e s req ctx rest w"
      by simp
    from f m assms have take: "length m0 = length (Path req) \<Longrightarrow>
        routeLoop e s req ctx (rt # rest) w = callHandler e s ctx rt captures w"
      by simp
    from sl skip take FindStringSubmatch_hd [OF f] show ?thesis by blast
  qed
  from none some show ?thesis by blast
qed

theorem full_path_match_witness:
  "FindStringSubmatch reA ''/ab'' = [''/a'']
   \<and> routeLoop exEnv emptyServer (exRequest ''GET'' ''/ab'') (exContext (exRequest ''GET'' ''/ab''))
       [exRoute ''/a'' reA ''GET'' helloHandler] emptySt
     = Return () \<lparr>resp = [WriteHeader 404, Write ''Page not found''], logger = []\<rparr>
   \<and> FindStringSubmatch reHello ''/hello/world'' = [''/hello/world'', ''world'']
   \<and> routeLoop exEnv emptyServer (exRequest ''GET'' ''/hello/world'')
       (exContext (exRequest ''GET'' ''/hello/world''))
       [exRoute ''/hello/(.+)'' reHello ''GET'' helloHandler] emptySt
     = callHandler exEnv emptyServer (exContext (exRequest ''GET'' ''/hello/world''))
         (exRoute ''/hello/(.+)'' reHello ''GET'' helloHandler) [''world''] emptySt"
proof -
  have m: "\<not> methodMismatch (Method (exRequest ''GET'' p)) (route_method (exRoute r cr ''GET'' h))"
    for p r cr h
    by (simp add: methodMismatch_def exRequest_def exRoute_def)
  have a: "FindStringSubmatch (route_cr (exRoute ''/a'' reA ''GET'' helloHandler))
      (Path (exRequest ''GET'' ''/ab'')) = [''/a'']"
    by (simp add: exRequest_def exRoute_def ex_find_a_ab)
  have h: "FindStringSubmatch (route_cr (exRoute ''/hello/(.+)'' reHello ''GET'' helloHandler))
      (Path (exRequest ''GET'' ''/hello/world'')) = [''/hello/world'', ''world'']"
    by (simp add: exRequest_def exRoute_def ex_find_hello)
  have "routeLoop exEnv emptyServer (exRequest ''GET'' ''/ab'') (exContext (exRequest ''GET'' ''/ab''))
       [exRoute ''/a'' reA ''GET'' helloHandler] emptySt
     = routeLoop exEnv emptyServer (exRequest ''GET'' ''/ab'')
         (exContext (exRequest ''GET'' ''/ab'')) [] emptySt"
    using full_path_match [of "exRequest ''GET'' ''/ab''" "exRoute ''/a'' reA ''GET'' helloHandler"
        exEnv emptyServer "exContext (exRequest ''GET'' ''/ab'')" "[]" emptySt, OF m] a
    by (simp add: exRequest_def del: routeLoop.simps)
  then have 1: "routeLoop exEnv emptyServer (exRequest ''GET'' ''/ab'')
       (exContext (exRequest ''GET'' ''/ab'')) [exRoute ''/a'' reA ''GET'' helloHandler] emptySt
     = Return () \<lparr>resp = [WriteHeader 404, Write ''Page not found''], logger = []\<rparr>"
    by (simp add: ex_notFound Abort_def wcalls_def emptySt_def del: routeLoop.simps(2))
  have 2: "routeLoop exEnv emptyServer (exRequest ''GET'' ''/hello/world'')
       (exContext (exRequest ''GET'' ''/hello/world''))
       [exRoute ''/hello/(.+)'' reHello ''GET'' helloHandler] emptySt
     = callHandler exEnv emptyServer (exContext (exRequest ''GET'' ''/hello/world''))
         (exRoute ''/hello/(.+)'' reHello ''GET'' helloHandler) [''world''] emptySt"
    using full_path_match [of "exRequest ''GET'' ''/hello/world''"
        "exRoute ''/hello/(.+)'' reHello ''GET'' helloHandler" exEnv emptyServer
        "exContext (exRequest ''GET'' ''/hello/world'')" "[]" emptySt, OF m] h
    by (simp add: exRequest_def del: routeLoop.simps)
  from 1 2 show ?thesis by (simp add: ex_find_a_ab ex_find_hello del: routeLoop.simps)
qed

section \<open>The arguments of the call\<close>

lemma pointer_to_context:
  "(Kind a0 = KPtr \<and> Elem a0 = Some contextType) = (underlying a0 = TPtr contextType)"
  by (induction a0) auto

lemma requiresContext_params:
  "params t = Some ins \<Longrightarrow>
     requiresContext t = Inr (\<exists>a0 more. ins = a0 # more \<and> underlying a0 = TPtr contextType)"
proof (cases ins)
  case Nil
  assume "params t = Some ins"
  with Nil show ?thesis by (simp add: requiresContext_def)
next
  case (Cons a0 more)
  assume "params t = Some ins"
  with Cons pointer_to_context [of a0] show ?thesis
    by (auto simp: requiresContext_def Let_def)
qed

text \<open>
  Claim C4. For a handler of a function type, the argument list is the context reference,
  present exactly when the first declared parameter is a pointer to the context type itself
  (its type is, or is declared as, the pointer type whose element type is identical to
  \<open>Context\<close>; so not for a handler without parameters, with a first parameter that is
  no pointer, or with a pointer to any other type), followed by the capture groups without
  the whole match, in their order, each as a value of type string holding the captured
  text unchanged. The handler is called on exactly this list.
\<close>

theorem argument_binding:
  assumes "route_handler rt = Valid t f" and "params t = Some ins"
  shows
    "handlerArgs (route_handler rt) ctx captures =
       Inr ((if \<exists>a0 more. ins = a0 # more \<and> underlying a0 = TPtr contextType
             then [Val (TPtr contextType) (PContext ctx)] else [])
            @ map (\<lambda>c. Val TString (PString c)) captures)
     \<and> callHandler e s ctx rt captures w =
         (case safelyCall e s (route_handler rt)
                 ((if \<exists>a0 more. ins = a0 # more \<and> underlying a0 = TPtr contextType
                   then [Val (TPtr contextType) (PContext ctx)] else [])
                  @ map (\<lambda>c. Val TString (PString c)) captures) w of
            Panic p w' \<Rightarrow> Panic p w'
          | Return (ret, err) w' \<Rightarrow> writeResult e ret err w')
     \<and> (\<not> methodMismatch (Method req) (route_method rt)
          \<and> FindStringSubmatch (route_cr rt) (Path req) = m0 # captures
          \<and> length m0 = length (Path req) \<longrightarrow>
          routeLoop e s req ctx (rt # rest) w = callHandler e s ctx rt captures w)"
proof -
  have args: "handlerArgs (route_handler rt) ctx captures =
       Inr ((if \<exists>a0 more. ins = a0 # more \<and> underlying a0 = TPtr contextType
             then [Val (TPtr contextType) (PContext ctx)] else [])
            @ map (\<lambda>c. Val TString (PString c)) captures)"
    using assms
    by (simp add: handlerArgs_def requiresContext_params ValueOf_ctx_def ValueOf_string_def)
  have call: "callHandler e s ctx rt captures w =
         (case safelyCall e s (route_handler rt)
                 ((if \<exists>a0 more. ins = a0 # more \<and> underlying a0 = TPtr contextType
                   then [Val (TPtr contextType) (PContext ctx)] else [])
                  @ map (\<lambda>c. Val TString (PString c)) captures) w of
            Panic p w' \<Rightarrow> Panic p w'
          | Return (ret, err) w' \<Rightarrow> writeResult e ret err w')"
    unfolding callHandler_def args by simp
  have loop: "\<not> methodMismatch (Method req) (route_method rt)
          \<and> FindStringSubmatch (route_cr rt) (Path req) = m0 # captures
          \<and> length m0 = length (Path req) \<longrightarrow>
          routeLoop e s req ctx (rt # rest) w = callHandler e s ctx rt captures w"
    using FindStringSubmatch_Nil [of "route_cr rt" "Path req"] by auto
  from args call loop show ?thesis by blast
qed

theorem argument_binding_witness:
  "handlerArgs ctxHandler (exContext (exRequest ''GET'' ''/specific'')) [''specific''] =
     Inr [Val (TPtr contextType) (PContext (exContext (exRequest ''GET'' ''/specific''))),
          Val TString (PString ''specific'')]
   \<and> handlerArgs helloHandler (exContext (exRequest ''GET'' ''/hello/world'')) [''world''] =
     Inr [Val TString (PString ''world'')]"
proof -
  have 1: "route_handler (exRoute ''/(.*)'' reAny ''GET'' ctxHandler)
      = Valid (TFunc [TPtr contextType, TString] [])
       (\<lambda>args w.
          case args of
            [Val (TPtr c) (PContext ctx), Val TString (PString v)] \<Rightarrow>
              (Inr [], wcalls [Write v] w)
          | _ \<Rightarrow> (Inl (ReflectPanic ''reflect: Call with wrong arguments''), w))"
    by (simp add: exRoute_def ctxHandler_def)
  have 2: "params (TFunc [TPtr contextType, TString] []) = Some [TPtr contextType, TString]"
    by simp
  have 3: "route_handler (exRoute ''/hello/(.+)'' reHello ''GET'' helloHandler)
      = Valid (TFunc [TString] [TString])
       (\<lambda>args w.
          case args of
            [Val TString (PString v)] \<Rightarrow> (Inr [Val TString (PString (''hello '' @ v))], w)
          | _ \<Rightarrow> (Inl (ReflectPanic ''reflect: Call with wrong arguments''), w))"
    by (simp add: exRoute_def helloHandler_def)
  have 4: "params (TFunc [TString] [TString]) = Some [TString]" by simp
  from argument_binding [OF 1 2, of "exContext (exRequest ''GET'' ''/specific'')"
      "[''specific'']"]
    argument_binding [OF 3 4, of "exContext (exRequest ''GET'' ''/hello/world'')" "[''world'']"]
  show ?thesis by (simp add: exRoute_def)
qed

section \<open>Registration\<close>

text \<open>
  Claim C5. If the pattern does not compile, \<open>addRoute\<close> leaves the route table as it
  was and only logs the failure; it has no error to return. If the pattern compiles, exactly
  one route is appended at the end of the table, after the routes already there, which stay
  as they were; nothing is checked about the handler, and registering the same route again
  appends it again.
\<close>

theorem addRoute_table:
  "(Compile e r = None \<longrightarrow>
      routes (addRoute e r m h s) = routes s
      \<and> Config (addRoute e r m h s) = Config s
      \<and> Logger (addRoute e r m h s) = Logger s @ [LogRouteRegexError r])
   \<and> (\<forall>cr. Compile e r = Some cr \<longrightarrow>
        routes (addRoute e r m h s) =
          routes s @ [\<lparr>route_r = r, route_cr = cr, route_method = m,
                       route_handler = (case h of IsValue fv \<Rightarrow> fv | Other fv \<Rightarrow> fv)\<rparr>]
        \<and> routes (addRoute e r m h (addRoute e r m h s)) =
          routes s @ [\<lparr>route_r = r, route_cr = cr, route_method = m,
                       route_handler = (case h of IsValue fv \<Rightarrow> fv | Other fv \<Rightarrow> fv)\<rparr>,
                      \<lparr>route_r = r, route_cr = cr, route_method = m,
                       route_handler = (case h of IsValue fv \<Rightarrow> fv | Other fv \<Rightarrow> fv)\<rparr>]
        \<and> Config (addRoute e r m h s) = Config s
        \<and> Logger (addRoute e r m h s) = Logger s)"
  by (cases h) (simp_all add: addRoute_def)

theorem addRoute_table_witness:
  "routes (addRoute exEnv ''/('' ''GET'' (Other helloHandler)
            (addRoute exEnv ''/a'' ''GET'' (Other helloHandler) emptyServer))
     = [\<lparr>route_r = ''/a'', route_cr = reA, route_method = ''GET'', route_handler = helloHandler\<rparr>]
   \<and> Logger (addRoute exEnv ''/('' ''GET'' (Other helloHandler)
            (addRoute exEnv ''/a'' ''GET'' (Other helloHandler) emptyServer))
     = [LogRouteRegexError ''/('']
   \<and> routes (addRoute exEnv ''/a'' ''GET'' (Other Invalid)
            (addRoute exEnv ''/a'' ''GET'' (Other Invalid) emptyServer))
     = [\<lparr>route_r = ''/a'', route_cr = reA, route_method = ''GET'', route_handler = Invalid\<rparr>,
        \<lparr>route_r = ''/a'', route_cr = reA, route_method = ''GET'', route_handler = Invalid\<rparr>]"
proof -
  have c1: "Compile exEnv ''/('' = None" by (simp add: exEnv_def exCompile_def)
  have c2: "Compile exEnv ''/a'' = Some reA" by (simp add: exEnv_def exCompile_def)
  from addRoute_table [of exEnv "''/(''" "''GET''" "Other helloHandler"
      "addRoute exEnv ''/a'' ''GET'' (Other helloHandler) emptyServer"]
    addRoute_table [of exEnv "''/a''" "''GET''" "Other helloHandler" emptyServer]
    addRoute_table [of exEnv "''/a''" "''GET''" "Other Invalid" emptyServer]
    c1 c2
  show ?thesis by (simp add: emptyServer_def)
qed

section \<open>Faults of the handler\<close>

lemma resp_Println [simp]: "resp (Println x w) = resp w"
  by (simp add: Println_def)

lemma resp_logFrames [simp]: "resp (logFrames frames w) = resp w"
  by (induction frames arbitrary: w) auto

lemma resp_Abort [simp]: "resp (Abort status body w) = resp w @ [WriteHeader status, Write body]"
  by (simp add: Abort_def wcalls_def)

lemma logger_Abort [simp]: "logger (Abort status body w) = logger w"
  by (simp add: Abort_def wcalls_def)

text \<open>
  Claim C6. Let the call of a route's handler raise a fault: a panic in the body, or one
  raised by \<open>Call\<close> because the arguments do not fit the declared parameters. With
  \<open>RecoverPanic\<close> on, \<open>safelyCall\<close> returns no values and the fault, after
  logging it with the frames of the stack; the dispatcher then aborts with status 500 and
  the body \<open>Server Error\<close> and returns: the handler is not called again and no later
  route is tried. With \<open>RecoverPanic\<close> off, the fault leaves \<open>safelyCall\<close> and the
  dispatcher as a panic.
\<close>

theorem fault_containment:
  assumes "Call h args w = (Inl p, w')"
    and "route_handler rt = h" and "handlerArgs h ctx captures = Inr args"
    and "satisfies req rt = Some captures"
  shows
    "(RecoverPanic (Config s) \<longrightarrow>
        safelyCall e s h args w =
          Return ([], Some p) (logFrames (Callers e) (Println (LogHandlerCrashed p) w'))
        \<and> routeLoop e s req ctx (rt # rest) w =
          Return () (Abort 500 ''Server Error''
            (logFrames (Callers e) (Println (LogHandlerCrashed p) w')))
        \<and> resp (Abort 500 ''Server Error''
            (logFrames (Callers e) (Println (LogHandlerCrashed p) w')))
          = resp w' @ [WriteHeader 500, Write ''Server Error''])
     \<and> (\<not> RecoverPanic (Config s) \<longrightarrow>
        safelyCall e s h args w = Panic p w'
        \<and> routeLoop e s req ctx (rt # rest) w = Panic p w')"
proof -
  have loop: "routeLoop e s req ctx (rt # rest) w = callHandler e s ctx rt captures w"
    unfolding routeLoop_step using assms(4) by simp
  show ?thesis
  proof (cases "RecoverPanic (Config s)")
    case True
    with assms(1) have sc: "safelyCall e s h args w =
          Return ([], Some p) (logFrames (Callers e) (Println (LogHandlerCrashed p) w'))"
      by (simp add: safelyCall_def)
    with assms(2,3) have "callHandler e s ctx rt captures w =
          Return () (Abort 500 ''Server Error''
            (logFrames (Callers e) (Println (LogHandlerCrashed p) w')))"
      by (simp add: callHandler_def writeResult_def)
    with sc loop True show ?thesis by simp
  next
    case False
    with assms(1) have sc: "safelyCall e s h args w = Panic p w'"
      by (simp add: safelyCall_def)
    with assms(2,3) have "callHandler e s ctx rt captures w = Panic p w'"
      by (simp add: callHandler_def)
    with sc loop False show ?thesis by simp
  qed
qed

lemma ex_satisfies_a:
  "satisfies (exRequest ''GET'' ''/a'') (exRoute ''/a'' reA ''GET'' h) = Some []"
  by (simp add: satisfies_def methodCondition_def fullPathMatch_def exRequest_def exRoute_def
      ex_find_a_a)

lemma ex_args_panicHandler: "handlerArgs panicHandler ctx [] = Inr []"
  by (simp add: handlerArgs_def panicHandler_def requiresContext_def)

lemma ex_Call_panicHandler: "Call panicHandler [] w = (Inl (HandlerPanic ''boom''), w)"
  by (simp add: panicHandler_def)

lemma ex_args_helloHandler:
  "handlerArgs helloHandler ctx captures = Inr (map (\<lambda>c. Val TString (PString c)) captures)"
  by (simp add: handlerArgs_def helloHandler_def requiresContext_def ValueOf_string_def)

lemma ex_Call_helloHandler_mismatch:
  "Call helloHandler [] w = (Inl (ReflectPanic ''reflect: Call with wrong arguments''), w)"
  by (simp add: helloHandler_def)

theorem fault_containment_witness:
  "routeLoop exEnv emptyServer (exRequest ''GET'' ''/a'') (exContext (exRequest ''GET'' ''/a''))
       [exRoute ''/a'' reA ''GET'' panicHandler, exRoute ''/a'' reA ''GET'' helloHandler] emptySt
     = Return ()
         \<lparr>resp = [WriteHeader 500, Write ''Server Error''],
          logger = [LogHandlerCrashed (HandlerPanic ''boom''), LogFrame ''server.go'' 306]\<rparr>
   \<and> routeLoop exEnv debugServer (exRequest ''GET'' ''/a'') (exContext (exRequest ''GET'' ''/a''))
       [exRoute ''/a'' reA ''GET'' panicHandler, exRoute ''/a'' reA ''GET'' helloHandler] emptySt
     = Panic (HandlerPanic ''boom'') emptySt
   \<and> routeLoop exEnv emptyServer (exRequest ''GET'' ''/a'') (exContext (exRequest ''GET'' ''/a''))
       [exRoute ''/a'' reA ''GET'' helloHandler, exRoute ''/a'' reA ''GET'' panicHandler] emptySt
     = Return ()
         \<lparr>resp = [WriteHeader 500, Write ''Server Error''],
          logger = [LogHandlerCrashed (ReflectPanic ''reflect: Call with wrong arguments''),
                    LogFrame ''server.go'' 306]\<rparr>"
proof -
  have rh': "route_handler (exRoute ''/a'' reA ''GET'' helloHandler) = helloHandler"
    by (simp add: exRoute_def)
  have ah: "handlerArgs helloHandler (exContext (exRequest ''GET'' ''/a'')) [] = Inr []"
    by (simp add: ex_args_helloHandler)
  have rh: "route_handler (exRoute ''/a'' reA ''GET'' panicHandler) = panicHandler"
    by (simp add: exRoute_def)
  from
    fault_containment [where s = emptyServer and e = exEnv and w = emptySt
      and rest = "[exRoute ''/a'' reA ''GET'' helloHandler]"
      and ctx = "exContext (exRequest ''GET'' ''/a'')",
      OF ex_Call_panicHandler rh ex_args_panicHandler ex_satisfies_a]
    fault_containment [where s = debugServer and e = exEnv and w = emptySt
      and rest = "[exRoute ''/a'' reA ''GET'' helloHandler]"
      and ctx = "exContext (exRequest ''GET'' ''/a'')",
      OF ex_Call_panicHandler rh ex_args_panicHandler ex_satisfies_a]
    fault_containment [where s = emptyServer and e = exEnv and w = emptySt
      and rest = "[exRoute ''/a'' reA ''GET'' panicHandler]"
      and ctx = "exContext (exRequest ''GET'' ''/a'')",
      OF ex_Call_helloHandler_mismatch rh' ah ex_satisfies_a]
  show ?thesis
    by (simp add: emptyServer_def debugServer_def exConfig_def exEnv_def emptySt_def Abort_def
        wcalls_def Println_def del: routeLoop.simps)
qed

section \<open>The returned value\<close>

lemma Itoa_0: "Itoa 0 = ''0''"
  by (simp add: Itoa.simps)

lemma callHandler_returned:
  assumes "Call h args w = (Inr ret, w')"
    and "route_handler rt = h" and "handlerArgs h ctx captures = Inr args"
  shows "callHandler e s ctx rt captures w = writeResult e ret None w'"
  using assms by (simp add: callHandler_def safelyCall_def)

lemma content_of_string:
  "Kind t = KString \<Longrightarrow> content_of (Val t (PString str)) = Inr str"
  by (simp add: content_of_def)

lemma content_of_bytes: "content_of (Val (TSlice TUint8) (PBytes b)) = Inr b"
  by (simp add: content_of_def)

lemma writeResult_content:
  "content_of v = Inr content \<Longrightarrow>
     writeResult e (v # others) None w =
       Return ()
         \<lparr>resp = resp w @ [HeaderSet ''Content-Length'' (Itoa (length content)), Write content],
          logger = logger w @ (case WriteError e content of None \<Rightarrow> [] | Some msg \<Rightarrow> [LogWriteError msg])\<rparr>"
  by (simp add: writeResult_def SetHeader_def wcalls_def Println_def split: option.splits)

lemma string_result_written:
  "Kind t = KString \<Longrightarrow>
     writeResult e (Val t (PString str) # others) None w =
       Return ()
         \<lparr>resp = resp w @ [HeaderSet ''Content-Length'' (Itoa (length str)), Write str],
          logger = logger w @ (case WriteError e str of None \<Rightarrow> [] | Some msg \<Rightarrow> [LogWriteError msg])\<rparr>"
  by (simp add: writeResult_content content_of_string)

lemma bytes_result_written:
  "writeResult e (Val (TSlice TUint8) (PBytes b) # others) None w =
       Return ()
         \<lparr>resp = resp w @ [HeaderSet ''Content-Length'' (Itoa (length b)), Write b],
          logger = logger w @ (case WriteError e b of None \<Rightarrow> [] | Some msg \<Rightarrow> [LogWriteError msg])\<rparr>"
  by (simp add: writeResult_content content_of_bytes)

lemma defined_byte_slice_panics:
  "writeResult e (Val (TDefined name (TSlice TUint8)) (PBytes b) # others) None w =
     Panic (RuntimePanic ''interface conversion: interface {} is not []uint8'') w"
  by (simp add: writeResult_def content_of_def)

text \<open>
  Claim C7. A handler whose first result is of kind String has the bytes of that string
  written as the body, with their number as the Content-Length
  (\<open>string_result_written\<close>), and a result of type \<open>[]byte\<close> is written through
  unchanged (\<open>bytes_result_written\<close>). A byte slice of a declared type is taken into the
  same branch by the test of the kinds, but there the type assertion to \<open>[]byte\<close> panics
  (\<open>defined_byte_slice_panics\<close>), outside of \<open>safelyCall\<close>. So for the route \<open>/a\<close>
  with a handler \<open>func() json.RawMessage\<close> that returns \<open>{}\<close>, the request
  \<open>GET /a\<close> ends in a panic after the three default headers: neither a Content-Length
  nor a body is written.
\<close>

theorem raw_message_result_panics:
  "routeHandler exEnv (Get exEnv ''/a'' (Other rawHandler) emptyServer)
       (exRequest ''GET'' ''/a'') []
     = Panic (RuntimePanic ''interface conversion: interface {} is not []uint8'')
         \<lparr>resp = [HeaderSet ''Server'' ''web.go'',
                  HeaderSet ''Date'' ''Mon, 02 Jan 2006 15:04:05 GMT'',
                  HeaderSet ''Content-Type'' ''text/html; charset=utf-8''],
          logger = [LogRequest ''GET'' ''/a'' None]\<rparr>"
proof -
  have srv: "Get exEnv ''/a'' (Other rawHandler) emptyServer
      = \<lparr>Config = exConfig, routes = [exRoute ''/a'' reA ''GET'' rawHandler], Logger = []\<rparr>"
    by (simp add: Get_def addRoute_def exEnv_def exCompile_def emptyServer_def exRoute_def)
  have args: "handlerArgs rawHandler ctx [] = Inr []" for ctx
    by (simp add: handlerArgs_def rawHandler_def requiresContext_def)
  have call: "Call rawHandler [] w = (Inr [Val rawMessage (PBytes ''{}'')], w)" for w
    by (simp add: rawHandler_def)
  have rh: "route_handler (exRoute ''/a'' reA ''GET'' rawHandler) = rawHandler"
    by (simp add: exRoute_def)
  have run: "callHandler exEnv s ctx (exRoute ''/a'' reA ''GET'' rawHandler) [] w
      = Panic (RuntimePanic ''interface conversion: interface {} is not []uint8'') w"
    for s ctx w
    unfolding callHandler_returned [OF call rh args]
    by (simp add: rawMessage_def defined_byte_slice_panics)
  have loop: "routeLoop exEnv s (exRequest ''GET'' ''/a'') ctx
       [exRoute ''/a'' reA ''GET'' rawHandler] w
      = Panic (RuntimePanic ''interface conversion: interface {} is not []uint8'') w"
    for s ctx w
    unfolding routeLoop_step by (simp add: ex_satisfies_a run)
  have served: "tryServingFile exEnv \<lparr>Config = exConfig, routes = rs, Logger = l\<rparr> name w
      = (False, w)" for rs l name w
    by (simp add: tryServingFile_def exEnv_def exConfig_def)
  have wt: "webTime (timeRFC1123 exEnv) = ''Mon, 02 Jan 2006 15:04:05 GMT''"
    by (simp add: exEnv_def webTime_def HasSuffix_def)
  have req: "Method (exRequest ''GET'' ''/a'') = ''GET''" "Form (exRequest ''GET'' ''/a'') = []"
    "Path (exRequest ''GET'' ''/a'') = ''/a''"
    by (simp_all add: exRequest_def)
  show ?thesis
    unfolding srv routeHandler_def
    by (simp add: Let_def served wt req loop SetHeader_def wcalls_def Println_def
        del: routeLoop.simps)
qed

text \<open>
  Claim C8. When the handler returns no values, the dispatcher returns with the response as
  the handler left it: no body and no Content-Length header are written. When the first
  returned value is neither of kind String nor a slice with elements of kind Uint8, the
  dispatcher raises no error: it sets Content-Length to 0 and writes the empty payload.
\<close>

theorem no_payload:
  assumes "route_handler rt = h" and "handlerArgs h ctx captures = Inr args"
  shows
    "(Call h args w = (Inr [], w') \<longrightarrow> callHandler e s ctx rt captures w = Return () w')
     \<and> (\<forall>sval others.
          Call h args w = (Inr (sval # others), w')
          \<and> Kind (TypeOf sval) \<noteq> KString
          \<and> \<not> (Kind (TypeOf sval) = KSlice
                \<and> map_option Kind (Elem (TypeOf sval)) = Some KUint8) \<longrightarrow>
          callHandler e s ctx rt captures w =
            Return ()
              \<lparr>resp = resp w' @ [HeaderSet ''Content-Length'' ''0'', Write []],
               logger = logger w' @
                 (case WriteError e [] of None \<Rightarrow> [] | Some msg \<Rightarrow> [LogWriteError msg])\<rparr>)"
proof -
  have none: "callHandler e s ctx rt captures w = Return () w'"
    if "Call h args w = (Inr [], w')"
    unfolding callHandler_returned [OF that assms] by (simp add: writeResult_def)
  have other: "callHandler e s ctx rt captures w =
            Return ()
              \<lparr>resp = resp w' @ [HeaderSet ''Content-Length'' ''0'', Write []],
               logger = logger w' @
                 (case WriteError e [] of None \<Rightarrow> [] | Some msg \<Rightarrow> [LogWriteError msg])\<rparr>"
    if c: "Call h args w = (Inr (sval # others), w')"
      and k: "Kind (TypeOf sval) \<noteq> KString"
        "\<not> (Kind (TypeOf sval) = KSlice \<and> map_option Kind (Elem (TypeOf sval)) = Some KUint8)"
    for sval others
  proof -
    from k have "content_of sval = Inr []" by (auto simp: content_of_def)
    from writeResult_content [OF this] show ?thesis
      unfolding callHandler_returned [OF c assms] by (simp add: Itoa_0)
  qed
  from none other show ?thesis by blast
qed


lemma ex_args_ctxHandler:
  "handlerArgs ctxHandler ctx captures =
     Inr (Val (TPtr contextType) (PContext ctx) # map (\<lambda>c. Val TString (PString c)) captures)"
  by (simp add: handlerArgs_def ctxHandler_def requiresContext_def contextType_def
      ValueOf_ctx_def ValueOf_string_def)

theorem no_payload_witness:
  "callHandler exEnv emptyServer (exContext (exRequest ''GET'' ''/specific''))
       (exRoute ''/(.*)'' reAny ''GET'' ctxHandler) [''specific''] emptySt
     = Return () \<lparr>resp = [Write ''specific''], logger = []\<rparr>
   \<and> callHandler exEnv emptyServer (exContext (exRequest ''GET'' ''/a''))
       (exRoute ''/a'' reA ''GET'' intHandler) [] emptySt
     = Return () \<lparr>resp = [HeaderSet ''Content-Length'' ''0'', Write []], logger = []\<rparr>"
proof -
  have rh1: "route_handler (exRoute ''/(.*)'' reAny ''GET'' ctxHandler) = ctxHandler"
    by (simp add: exRoute_def)
  have a1: "handlerArgs ctxHandler (exContext (exRequest ''GET'' ''/specific'')) [''specific'']
      = Inr [Val (TPtr contextType) (PContext (exContext (exRequest ''GET'' ''/specific''))),
             Val TString (PString ''specific'')]"
    by (simp add: ex_args_ctxHandler)
  have c1: "Call ctxHandler
       [Val (TPtr contextType) (PContext (exContext (exRequest ''GET'' ''/specific''))),
        Val TString (PString ''specific'')] emptySt
      = (Inr [], \<lparr>resp = [Write ''specific''], logger = []\<rparr>)"
    by (simp add: ctxHandler_def wcalls_def emptySt_def)
  have rh2: "route_handler (exRoute ''/a'' reA ''GET'' intHandler) = intHandler"
    by (simp add: exRoute_def)
  have a2: "handlerArgs intHandler (exContext (exRequest ''GET'' ''/a'')) [] = Inr []"
    by (simp add: handlerArgs_def intHandler_def requiresContext_def)
  have c2: "Call intHandler [] emptySt = (Inr [Val TInt POpaque], emptySt)"
    by (simp add: intHandler_def)
  from
    no_payload [OF rh1 a1, where w = emptySt and e = exEnv and s = emptyServer
      and w' = "\<lparr>resp = [Write ''specific''], logger = []\<rparr>"]
    no_payload [OF rh2 a2, where w = emptySt and e = exEnv and s = emptyServer
      and w' = emptySt]
    c1 c2
  show ?thesis by (simp add: exEnv_def emptySt_def)
qed

section \<open>No route found\<close>

lemma serveFirst_False: "\<not> fst (serveFirst e dirs name w) \<Longrightarrow> serveFirst e dirs name w = (False, w)"
  by (induction dirs) (auto simp: Let_def split: if_splits)

lemma tryServingFile_False:
  "\<not> fst (tryServingFile e s name w) \<Longrightarrow> tryServingFile e s name w = (False, w)"
  by (auto simp: tryServingFile_def Let_def serveFirst_False split: if_splits)

lemma routeLoop_none:
  "\<forall>rt\<in>set rs. satisfies req rt = None \<Longrightarrow> routeLoop e s req ctx rs w = notFound e s req w"
  using firstSatisfying_None [of req rs] by (simp add: routeLoop_first)

text \<open>
  Claim C9. When no registered route meets both the method condition and the full-path
  condition, and, for a GET or HEAD request, no static file is served for the path nor for
  \<open>index.html\<close> or \<open>index.htm\<close> under it, dispatch ends by aborting with status 404
  and the body \<open>Page not found\<close>, after the three default headers. For any other method
  the files are not looked up at all: the abort follows the scan directly.
\<close>

theorem not_found:
  assumes "\<forall>rt\<in>set (routes s). satisfies req rt = None"
    and "Method req = ''GET'' \<or> Method req = ''HEAD'' \<longrightarrow>
           (\<forall>w. \<not> fst (tryServingFile e s (Path req) w))
           \<and> (\<forall>w. \<not> fst (tryServingFile e s (Join e (Path req) ''index.html'') w))
           \<and> (\<forall>w. \<not> fst (tryServingFile e s (Join e (Path req) ''index.htm'') w))"
  shows
    "routeHandler e s req w =
       Return ()
         \<lparr>resp = w @ [HeaderSet ''Server'' ''web.go'',
                      HeaderSet ''Date'' (webTime (timeRFC1123 e)),
                      HeaderSet ''Content-Type'' ''text/html; charset=utf-8'',
                      WriteHeader 404, Write ''Page not found''],
          logger = Logger s @
            [LogRequest (Method req) (Path req)
               (if 0 < length (Form req)
                then Some (map (\<lambda>(k, v, vs). (k, v)) (Form req)) else None)]\<rparr>
     \<and> (Method req \<noteq> ''GET'' \<and> Method req \<noteq> ''HEAD'' \<longrightarrow>
          (\<forall>w'. notFound e s req w' = Return () (Abort 404 ''Page not found'' w')))"
proof -
  have other: "Method req \<noteq> ''GET'' \<and> Method req \<noteq> ''HEAD'' \<longrightarrow>
      (\<forall>w'. notFound e s req w' = Return () (Abort 404 ''Page not found'' w'))"
    by (simp add: notFound_def)
  have main: "routeHandler e s req w =
       Return ()
         \<lparr>resp = w @ [HeaderSet ''Server'' ''web.go'',
                      HeaderSet ''Date'' (webTime (timeRFC1123 e)),
                      HeaderSet ''Content-Type'' ''text/html; charset=utf-8'',
                      WriteHeader 404, Write ''Page not found''],
          logger = Logger s @
            [LogRequest (Method req) (Path req)
               (if 0 < length (Form req)
                then Some (map (\<lambda>(k, v, vs). (k, v)) (Form req)) else None)]\<rparr>"
  proof (cases "Method req = ''GET'' \<or> Method req = ''HEAD''")
    case True
    with assms(2) have f: "tryServingFile e s (Path req) w = (False, w)"
      "tryServingFile e s (Join e (Path req) ''index.html'') w = (False, w)"
      "tryServingFile e s (Join e (Path req) ''index.htm'') w = (False, w)" for w
      by (simp_all add: tryServingFile_False)
    from True f have nf: "notFound e s req w = Return () (Abort 404 ''Page not found'' w)" for w
      by (simp add: notFound_def)
    from True show ?thesis
      unfolding routeHandler_def
      by (simp add: Let_def f routeLoop_none [OF assms(1)] nf SetHeader_def wcalls_def
          Println_def Abort_def)
  next
    case False
    then have nf: "notFound e s req w = Return () (Abort 404 ''Page not found'' w)" for w
      by (simp add: notFound_def)
    from False show ?thesis
      unfolding routeHandler_def
      by (simp add: Let_def routeLoop_none [OF assms(1)] nf SetHeader_def wcalls_def
          Println_def Abort_def)
  qed
  from main other show ?thesis by blast
qed

theorem not_found_witness:
  "routeHandler exEnv emptyServer (exRequest ''GET'' ''/missing'') [] =
     Return ()
       \<lparr>resp = [HeaderSet ''Server'' ''web.go'',
                HeaderSet ''Date'' ''Mon, 02 Jan 2006 15:04:05 GMT'',
                HeaderSet ''Content-Type'' ''text/html; charset=utf-8'',
                WriteHeader 404, Write ''Page not found''],
        logger = [LogRequest ''GET'' ''/missing'' None]\<rparr>"
proof -
  have 1: "\<forall>rt\<in>set (routes emptyServer). satisfies (exRequest ''GET'' ''/missing'') rt = None"
    by (simp add: emptyServer_def)
  have f: "\<not> fst (tryServingFile exEnv emptyServer name w)" for name w
    by (simp add: tryServingFile_def exEnv_def emptyServer_def exConfig_def)
  have 2: "Method (exRequest ''GET'' ''/missing'') = ''GET''
        \<or> Method (exRequest ''GET'' ''/missing'') = ''HEAD'' \<longrightarrow>
      (\<forall>w. \<not> fst (tryServingFile exEnv emptyServer (Path (exRequest ''GET'' ''/missing'')) w))
      \<and> (\<forall>w. \<not> fst (tryServingFile exEnv emptyServer
              (Join exEnv (Path (exRequest ''GET'' ''/missing'')) ''index.html'') w))
      \<and> (\<forall>w. \<not> fst (tryServingFile exEnv emptyServer
              (Join exEnv (Path (exRequest ''GET'' ''/missing'')) ''index.htm'') w))"
    using f by blast
  have wt: "webTime (timeRFC1123 exEnv) = ''Mon, 02 Jan 2006 15:04:05 GMT''"
    by (simp add: exEnv_def webTime_def HasSuffix_def)
  from not_found [OF 1 2, of "[]"] show ?thesis
    by (simp add: wt) (simp add: exRequest_def emptyServer_def)
qed

text \<open>
  Claim C10. Of the values a handler returns only the first is read: the payload, the
  Content-Length header and the outcome of dispatch are the same as if the handler had
  returned the first value alone.
\<close>

theorem first_result_only:
  "writeResult e (v # others) err w = writeResult e [v] err w
   \<and> (Call h args w = (Inr (v # others), w') \<and> route_handler rt = h
        \<and> handlerArgs h ctx captures = Inr args \<longrightarrow>
        callHandler e s ctx rt captures w = writeResult e [v] None w')"
proof -
  have 1: "writeResult e (v # others) err w = writeResult e [v] err w"
    by (simp add: writeResult_def)
  have "callHandler e s ctx rt captures w = writeResult e [v] None w'"
    if "Call h args w = (Inr (v # others), w')" "route_handler rt = h"
      "handlerArgs h ctx captures = Inr args"
    unfolding callHandler_returned [OF that] by (simp add: writeResult_def)
  with 1 show ?thesis by blast
qed

theorem first_result_only_witness:
  "callHandler exEnv emptyServer (exContext (exRequest ''GET'' ''/a''))
       (exRoute ''/a'' reA ''GET'' pairHandler) [] emptySt
     = Return () \<lparr>resp = [HeaderSet ''Content-Length'' ''2'', Write ''ok''], logger = []\<rparr>"
proof -
  have rh: "route_handler (exRoute ''/a'' reA ''GET'' pairHandler) = pairHandler"
    by (simp add: exRoute_def)
  have a: "handlerArgs pairHandler (exContext (exRequest ''GET'' ''/a'')) [] = Inr []"
    by (simp add: handlerArgs_def pairHandler_def requiresContext_def)
  have c: "Call pairHandler [] emptySt
      = (Inr [Val TString (PString ''ok''), Val TInt POpaque], emptySt)"
    by (simp add: pairHandler_def)
  have i: "Itoa (Suc (Suc 0)) = ''2''" by (simp add: Itoa.simps)
  from first_result_only [where h = pairHandler and args = "[]" and w = emptySt
      and w' = emptySt and v = "Val TString (PString ''ok'')" and others = "[Val TInt POpaque]"
      and rt = "exRoute ''/a'' reA ''GET'' pairHandler"
      and ctx = "exContext (exRequest ''GET'' ''/a'')" and captures = "[]"
      and e = exEnv and s = emptyServer and err = None] rh a c
  show ?thesis
    by (simp add: string_result_written exEnv_def emptySt_def i)
qed

section \<open>Registration order\<close>

text \<open>
  Claim C2, as amended. Let R1 (at position i) be registered before R2 (at position j), and
  let both meet the method condition and the full-path condition. If no route registered
  before R1 meets both conditions, the request is dispatched to R1's handler: the outcome is
  that of calling R1's handler with R1's captures, whatever R2 is. In every case the scan
  goes in registration order and the first route meeting both conditions wins: the request
  goes to a route at or before R1, never to R2, however specific R2's pattern is.
\<close>

theorem registration_order:
  assumes "i < j" and "j < length rs"
    and "satisfies req (rs ! i) = Some ci" and "satisfies req (rs ! j) = Some cj"
  shows
    "((\<forall>k<i. satisfies req (rs ! k) = None) \<longrightarrow>
        routeLoop e s req ctx rs w = callHandler e s ctx (rs ! i) ci w
        \<and> (\<forall>args ret w'.
              handlerArgs (route_handler (rs ! i)) ctx ci = Inr args
              \<and> Call (route_handler (rs ! i)) args w = (Inr ret, w') \<longrightarrow>
              routeLoop e s req ctx rs w = writeResult e ret None w'))
     \<and> (\<exists>k captures. k \<le> i \<and> k < j
          \<and> satisfies req (rs ! k) = Some captures
          \<and> (\<forall>k'<k. satisfies req (rs ! k') = None)
          \<and> firstSatisfying req rs = Some (k, captures)
          \<and> routeLoop e s req ctx rs w = callHandler e s ctx (rs ! k) captures w
          \<and> (\<forall>args ret w'.
                handlerArgs (route_handler (rs ! k)) ctx captures = Inr args
                \<and> Call (route_handler (rs ! k)) args w = (Inr ret, w') \<longrightarrow>
                routeLoop e s req ctx rs w = writeResult e ret None w'))"
proof -
  from assms have il: "i < length rs" by simp
  from firstSatisfying_le [OF il assms(3)] obtain k captures
    where k: "k \<le> i" "firstSatisfying req rs = Some (k, captures)" by blast
  note fs = firstSatisfying_Some [OF k(2)]
  have run: "routeLoop e s req ctx rs w = callHandler e s ctx (rs ! k) captures w"
    by (simp add: routeLoop_first k(2))
  have called: "routeLoop e s req ctx rs w = writeResult e ret None w'"
    if "handlerArgs (route_handler (rs ! k)) ctx captures = Inr args"
      and "Call (route_handler (rs ! k)) args w = (Inr ret, w')" for args ret w'
    unfolding run using callHandler_returned [OF that(2) refl that(1)] by simp
  have first: "routeLoop e s req ctx rs w = callHandler e s ctx (rs ! i) ci w
        \<and> (\<forall>args ret w'.
              handlerArgs (route_handler (rs ! i)) ctx ci = Inr args
              \<and> Call (route_handler (rs ! i)) args w = (Inr ret, w') \<longrightarrow>
              routeLoop e s req ctx rs w = writeResult e ret None w')"
    if "\<forall>k<i. satisfies req (rs ! k) = None"
  proof -
    from that fs have "\<not> k < i" by auto
    with k(1) have ki: "k = i" by simp
    with fs assms(3) have "captures = ci" by simp
    with ki run called show ?thesis by blast
  qed
  from k(1) assms(1) have "k < j" by simp
  with k fs run first called show ?thesis by blast
qed

lemma ex_satisfies_any_specific:
  "satisfies (exRequest ''GET'' ''/specific'') (exRoute ''/(.*)'' reAny ''GET'' h)
     = Some [''specific'']"
  by (simp add: satisfies_def methodCondition_def fullPathMatch_def exRequest_def exRoute_def
      ex_find_any_specific)

lemma ex_satisfies_specific:
  "satisfies (exRequest ''GET'' ''/specific'') (exRoute ''/specific'' reSpecific ''GET'' h)
     = Some []"
  by (simp add: satisfies_def methodCondition_def fullPathMatch_def exRequest_def exRoute_def
      ex_find_specific)

lemma ex_Call_ctxHandler:
  "Call ctxHandler [Val (TPtr contextType) (PContext ctx), Val TString (PString v)] w
     = (Inr [], wcalls [Write v] w)"
  by (simp add: ctxHandler_def)

lemma ex_callHandler_ctxHandler:
  "callHandler exEnv s ctx (exRoute r cr m ctxHandler) [v] emptySt
     = Return () \<lparr>resp = [Write v], logger = []\<rparr>"
proof -
  have rh: "route_handler (exRoute r cr m ctxHandler) = ctxHandler" by (simp add: exRoute_def)
  have a: "handlerArgs ctxHandler ctx [v]
      = Inr [Val (TPtr contextType) (PContext ctx), Val TString (PString v)]"
    by (simp add: ex_args_ctxHandler)
  show ?thesis
    unfolding callHandler_returned [OF ex_Call_ctxHandler rh a]
    by (simp add: writeResult_def wcalls_def emptySt_def)
qed

lemma ex_callHandler_panicHandler:
  "callHandler exEnv emptyServer ctx (exRoute r cr m panicHandler) [] emptySt
     = Return ()
         \<lparr>resp = [WriteHeader 500, Write ''Server Error''],
          logger = [LogHandlerCrashed (HandlerPanic ''boom''), LogFrame ''server.go'' 306]\<rparr>"
  by (simp add: callHandler_def exRoute_def ex_args_panicHandler safelyCall_def
      ex_Call_panicHandler emptyServer_def exConfig_def exEnv_def writeResult_def Abort_def
      wcalls_def Println_def emptySt_def)

theorem registration_order_witness:
  "satisfies (exRequest ''GET'' ''/specific'') (twoRoutes ! 0) = Some [''specific'']
   \<and> satisfies (exRequest ''GET'' ''/specific'') (twoRoutes ! 1) = Some []
   \<and> routeLoop exEnv emptyServer (exRequest ''GET'' ''/specific'')
       (exContext (exRequest ''GET'' ''/specific'')) twoRoutes emptySt
     = Return () \<lparr>resp = [Write ''specific''], logger = []\<rparr>"
proof -
  have 1: "satisfies (exRequest ''GET'' ''/specific'') (twoRoutes ! 0) = Some [''specific'']"
    by (simp add: twoRoutes_def ex_satisfies_any_specific)
  have 2: "satisfies (exRequest ''GET'' ''/specific'') (twoRoutes ! 1) = Some []"
    by (simp add: twoRoutes_def ex_satisfies_specific)
  have 3: "(0::nat) < 1" by simp
  have 4: "1 < length twoRoutes" by (simp add: twoRoutes_def)
  have 5: "callHandler exEnv emptyServer (exContext (exRequest ''GET'' ''/specific''))
      (twoRoutes ! 0) [''specific''] emptySt
      = Return () \<lparr>resp = [Write ''specific''], logger = []\<rparr>"
    by (simp add: twoRoutes_def ex_callHandler_ctxHandler)
  from registration_order [OF 3 4 1 2, of exEnv emptyServer
      "exContext (exRequest ''GET'' ''/specific'')" emptySt] 1 2 5
  show ?thesis by (simp del: routeLoop.simps)
qed

text \<open>
  Without the proviso the statement fails. In a table of three routes that all meet both
  conditions for \<open>GET /specific\<close>, take the second and the third as R1 and R2: the
  request goes to the first route, whose handler writes the capture, and not to R1's
  handler, which would end in the abort with status 500.
\<close>

theorem pairwise_dispatch_refuted:
  "\<not> (\<forall>e s req ctx rs w i j ci cj.
        i < j \<and> j < length rs
        \<and> satisfies req (rs ! i) = Some ci \<and> satisfies req (rs ! j) = Some cj \<longrightarrow>
        routeLoop e s req ctx rs w = callHandler e s ctx (rs ! i) ci w)"
proof
  assume a: "\<forall>e s req ctx rs w i j ci cj.
        i < j \<and> j < length rs
        \<and> satisfies req (rs ! i) = Some ci \<and> satisfies req (rs ! j) = Some cj \<longrightarrow>
        routeLoop e s req ctx rs w = callHandler e s ctx (rs ! i) ci w"
  let ?req = "exRequest ''GET'' ''/specific''"
  let ?ctx = "exContext ?req"
  have 1: "satisfies ?req (threeRoutes ! 1) = Some []"
    by (simp add: threeRoutes_def ex_satisfies_specific)
  have 2: "satisfies ?req (threeRoutes ! 2) = Some []"
    by (simp add: threeRoutes_def ex_satisfies_specific)
  have 3: "(1::nat) < 2 \<and> 2 < length threeRoutes" by (simp add: threeRoutes_def)
  from a 1 2 3 have "routeLoop exEnv emptyServer ?req ?ctx threeRoutes emptySt
      = callHandler exEnv emptyServer ?ctx (threeRoutes ! 1) [] emptySt"
    by blast
  moreover have "routeLoop exEnv emptyServer ?req ?ctx threeRoutes emptySt
      = Return () \<lparr>resp = [Write ''specific''], logger = []\<rparr>"
    unfolding threeRoutes_def routeLoop_step
    by (simp add: ex_satisfies_any_specific ex_callHandler_ctxHandler)
  moreover have "callHandler exEnv emptyServer ?ctx (threeRoutes ! 1) [] emptySt
      = Return ()
         \<lparr>resp = [WriteHeader 500, Write ''Server Error''],
          logger = [LogHandlerCrashed (HandlerPanic ''boom''), LogFrame ''server.go'' 306]\<rparr>"
    by (simp add: threeRoutes_def ex_callHandler_panicHandler)
  ultimately show False by simp
qed

text \<open>The same table, with each side computed.\<close>

theorem three_routes_counterexample:
  "satisfies (exRequest ''GET'' ''/specific'') (threeRoutes ! 1) = Some []
   \<and> satisfies (exRequest ''GET'' ''/specific'') (threeRoutes ! 2) = Some []
   \<and> routeLoop exEnv emptyServer (exRequest ''GET'' ''/specific'')
       (exContext (exRequest ''GET'' ''/specific'')) threeRoutes emptySt
     = Return () \<lparr>resp = [Write ''specific''], logger = []\<rparr>
   \<and> callHandler exEnv emptyServer (exContext (exRequest ''GET'' ''/specific''))
       (threeRoutes ! 1) [] emptySt
     = Return ()
         \<lparr>resp = [WriteHeader 500, Write ''Server Error''],
          logger = [LogHandlerCrashed (HandlerPanic ''boom''), LogFrame ''server.go'' 306]\<rparr>
   \<and> routeLoop exEnv emptyServer (exRequest ''GET'' ''/specific'')
       (exContext (exRequest ''GET'' ''/specific'')) threeRoutes emptySt
     \<noteq> callHandler exEnv emptyServer (exContext (exRequest ''GET'' ''/specific''))
         (threeRoutes ! 1) [] emptySt"
proof -
  let ?req = "exRequest ''GET'' ''/specific''"
  let ?ctx = "exContext ?req"
  have 1: "satisfies ?req (threeRoutes ! 1) = Some []"
    by (simp add: threeRoutes_def ex_satisfies_specific)
  have 2: "satisfies ?req (threeRoutes ! 2) = Some []"
    by (simp add: threeRoutes_def ex_satisfies_specific)
  have 3: "routeLoop exEnv emptyServer ?req ?ctx threeRoutes emptySt
      = Return () \<lparr>resp = [Write ''specific''], logger = []\<rparr>"
    unfolding threeRoutes_def routeLoop_step
    by (simp add: ex_satisfies_any_specific ex_callHandler_ctxHandler)
  have 4: "callHandler exEnv emptyServer ?ctx (threeRoutes ! 1) [] emptySt
      = Return ()
         \<lparr>resp = [WriteHeader 500, Write ''Server Error''],
          logger = [LogHandlerCrashed (HandlerPanic ''boom''), LogFrame ''server.go'' 306]\<rparr>"
    by (simp add: threeRoutes_def ex_callHandler_panicHandler)
  from 1 2 3 4 show ?thesis by simp
qed

end
